theory Spec2Isabelle
  imports Main "HOL-Library.Sublist"
begin

section \<open>The speech-to-text front end of app.py\<close>

text \<open>
  app.py wires three functions to a Streamlit page: \<open>transcribe_speech\<close> (microphone),
  \<open>transcribe_mp3\<close> (uploaded file) and \<open>save_transcription\<close>. Everything they compute
  is decided by calls into libraries and the operating system, so the model takes the
  outcome of every external call from a record \<open>world\<close>, keeps the file system and the
  sequence of external calls in an explicit state \<open>sys\<close>, and turns every \<open>raise\<close> into
  the \<open>Inl\<close> branch of a sum. Byte strings and text are both \<open>string\<close>.

  Not modelled: the Streamlit calls \<open>st.info\<close> and the \<open>__exit__\<close> methods of the context
  managers are taken to succeed without effect.
\<close>

subsection \<open>Exceptions\<close>

text \<open>
  The handlers of app.py tell apart \<open>sr.WaitTimeoutError\<close>, \<open>sr.UnknownValueError\<close>,
  \<open>sr.RequestError\<close>, any other subclass of \<open>Exception\<close>, and (through the difference
  between \<open>except Exception\<close> and a bare \<open>except:\<close>) what derives from \<open>BaseException\<close>
  only. \<open>UnboundLocalError\<close> is the exception of \<open>return text\<close> when no branch of the
  \<open>if\<close>/\<open>elif\<close> chain has bound \<open>text\<close>. Each exception carries its \<open>str(e)\<close>.
\<close>

datatype exc =
    WaitTimeoutError string
  | UnknownValueError string
  | RequestError string
  | UnboundLocalError string
  | OtherException string
  | NonException string

fun str_exc :: "exc \<Rightarrow> string" where
  "str_exc (WaitTimeoutError m) = m"
| "str_exc (UnknownValueError m) = m"
| "str_exc (RequestError m) = m"
| "str_exc (UnboundLocalError m) = m"
| "str_exc (OtherException m) = m"
| "str_exc (NonException m) = m"

text \<open>\<open>except Exception\<close> catches everything but the last constructor.\<close>

fun is_Exception :: "exc \<Rightarrow> bool" where
  "is_Exception (NonException m) = False"
| "is_Exception e = True"

text \<open>The message of the interpreter for the unbound local \<open>text\<close>.\<close>

definition unbound_text :: exc where
  "unbound_text = UnboundLocalError
     (''cannot access local variable '' @ [CHR 0x27] @ ''text'' @ [CHR 0x27] @
      '' where it is not associated with a value'')"

subsection \<open>The outside world and the state\<close>

record datetime =
  year :: nat
  month :: nat
  day :: nat
  hour :: nat
  minute :: nat
  second :: nat

text \<open>
  One field per external call of app.py, giving what that call returns or raises.
  \<open>None\<close> in an \<open>exc option\<close> is success. \<open>getenv\<close> is the process environment, so
  \<open>getenv w k = None\<close> is the \<open>None\<close> of \<open>os.getenv(k)\<close> for an unset variable.
\<close>

record world =
  getenv :: "string \<Rightarrow> string option"
  microphone_enter :: "exc option"
  listen :: "exc + string"
  recognize_google :: "string \<Rightarrow> string \<Rightarrow> exc + string"
  recognize_sphinx :: "string \<Rightarrow> exc + string"
  recognize_wit :: "string \<Rightarrow> string option \<Rightarrow> string \<Rightarrow> exc + string"
  recognize_bing :: "string \<Rightarrow> string option \<Rightarrow> string \<Rightarrow> exc + string"
  recognize_houndify ::
    "string \<Rightarrow> string option \<Rightarrow> string option \<Rightarrow> string \<Rightarrow> exc + string"
  ffmpeg_version :: "exc option"
  from_mp3 :: "string \<Rightarrow> exc + string"
  named_temporary_file :: "exc + string"
  export :: "string \<Rightarrow> string \<Rightarrow> exc + string"
  audio_file_enter :: "string \<Rightarrow> exc option"
  record_audio :: "string \<Rightarrow> exc + string"
  unlink_error :: "string \<Rightarrow> exc option"
  now :: datetime
  open_error :: "string \<Rightarrow> exc option"
  write_error :: "string \<Rightarrow> string \<Rightarrow> exc option"

text \<open>The external calls, as they are recorded in the order they are made.\<close>

datatype call =
    Microphone_enter
  | Listen
  | Recognize_google string
  | Recognize_sphinx
  | Recognize_wit "string option" string
  | Recognize_bing "string option" string
  | Recognize_houndify "string option" "string option" string
  | Ffmpeg_version
  | From_mp3
  | Named_temporary_file
  | Export string
  | Audio_file_enter string
  | Record_audio string
  | Unlink string
  | Now
  | Open_write string
  | Write string

record sys =
  files :: "string \<Rightarrow> string option"
  calls :: "call list"

definition log :: "call \<Rightarrow> sys \<Rightarrow> sys" where
  "log c s = s\<lparr>calls := calls s @ [c]\<rparr>"

subsection \<open>transcribe_speech\<close>

text \<open>
  Lines 52 to 93: the \<open>if\<close>/\<open>elif\<close> chain with the inner \<open>try\<close> of wit, bing and
  houndify. \<open>Inr v\<close> is \<open>return v\<close> (the text, or the message of an inner handler),
  \<open>Inl e\<close> is an exception leaving the chain for the handlers of lines 94 to 99. An
  identifier matching no branch leaves \<open>text\<close> unbound at \<open>return text\<close>.
\<close>

definition speech_dispatch ::
  "world \<Rightarrow> string \<Rightarrow> string \<Rightarrow> string \<Rightarrow> sys \<Rightarrow> (exc + string) \<times> sys" where
  "speech_dispatch w api language audio_text s =
    (if api = ''google'' then
       (recognize_google w audio_text language, log (Recognize_google language) s)
     else if api = ''sphinx'' then
       (recognize_sphinx w audio_text, log Recognize_sphinx s)
     else if api = ''wit'' then
       (let key = getenv w ''WIT_AI_KEY'' in
        (case recognize_wit w audio_text key language of
           Inl (UnknownValueError m) \<Rightarrow> Inr ''Could not understand audio using Wit.ai''
         | Inl (RequestError m) \<Rightarrow>
             Inr ''Could not request results from Wit.ai service. Please check your API key.''
         | r \<Rightarrow> r,
         log (Recognize_wit key language) s))
     else if api = ''bing'' then
       (let key = getenv w ''BING_KEY'' in
        (case recognize_bing w audio_text key language of
           Inl (UnknownValueError m) \<Rightarrow> Inr ''Could not understand audio using Microsoft Bing''
         | Inl (RequestError m) \<Rightarrow>
             Inr ''Could not request results from Microsoft Bing service. Please check your API key.''
         | r \<Rightarrow> r,
         log (Recognize_bing key language) s))
     else if api = ''houndify'' then
       (let client_id = getenv w ''HOUNDIFY_CLIENT_ID'';
            client_key = getenv w ''HOUNDIFY_CLIENT_KEY'' in
        (case recognize_houndify w audio_text client_id client_key language of
           Inl (UnknownValueError m) \<Rightarrow> Inr ''Could not understand audio using Houndify''
         | Inl (RequestError m) \<Rightarrow>
             Inr ''Could not request results from Houndify service. Please check your API credentials.''
         | r \<Rightarrow> r,
         log (Recognize_houndify client_id client_key language) s))
     else (Inl unbound_text, s))"

text \<open>Lines 94 to 99: the handlers of the outer \<open>try\<close>.\<close>

fun speech_handlers :: "string \<Rightarrow> exc \<Rightarrow> exc + string" where
  "speech_handlers api (UnknownValueError m) =
     Inr ''Sorry, I did not understand what you said. Please try speaking more clearly.''"
| "speech_handlers api (RequestError m) =
     Inr (''Could not request results from '' @ api @ '' service; '' @ m)"
| "speech_handlers api (NonException m) = Inl (NonException m)"
| "speech_handlers api e =
     Inr (''An unexpected error occurred during transcription: '' @ str_exc e)"

definition speech_recognize ::
  "world \<Rightarrow> string \<Rightarrow> string \<Rightarrow> string \<Rightarrow> sys \<Rightarrow> (exc + string) \<times> sys" where
  "speech_recognize w api language audio_text s =
    (case speech_dispatch w api language audio_text s of
       (Inr v, s') \<Rightarrow> (Inr v, s')
     | (Inl e, s') \<Rightarrow> (speech_handlers api e, s'))"

text \<open>Lines 41 to 48: the handlers around \<open>r.listen(source)\<close>.\<close>

fun listen_handlers :: "exc \<Rightarrow> exc + string" where
  "listen_handlers (WaitTimeoutError m) =
     Inr ''No speech detected. Please try speaking again.''"
| "listen_handlers (UnknownValueError m) =
     Inr ''Could not understand audio. Please try speaking more clearly.''"
| "listen_handlers (RequestError m) =
     Inr (''Could not request results from microphone; '' @ m)"
| "listen_handlers (NonException m) = Inl (NonException m)"
| "listen_handlers e =
     Inr (''An unexpected error occurred while recording: '' @ str_exc e)"

text \<open>
  Lines 31 to 99. \<open>with sr.Microphone() as source\<close> stands outside both \<open>try\<close>
  statements: what it raises leaves the function.
\<close>

definition transcribe_speech ::
  "world \<Rightarrow> string \<Rightarrow> string \<Rightarrow> sys \<Rightarrow> (exc + string) \<times> sys" where
  "transcribe_speech w api language s =
    (let s1 = log Microphone_enter s in
     case microphone_enter w of
       Some e \<Rightarrow> (Inl e, s1)
     | None \<Rightarrow>
        (let s2 = log Listen s1 in
         case listen w of
           Inl e \<Rightarrow> (listen_handlers e, s2)
         | Inr audio_text \<Rightarrow> speech_recognize w api language audio_text s2))"

subsection \<open>transcribe_mp3\<close>

text \<open>
  Lines 126 to 152: the \<open>if\<close>/\<open>elif\<close> chain of the file path, which has no inner
  \<open>try\<close>. \<open>Inr text\<close> is \<open>return text\<close>.
\<close>

definition mp3_dispatch ::
  "world \<Rightarrow> string \<Rightarrow> string \<Rightarrow> string \<Rightarrow> sys \<Rightarrow> (exc + string) \<times> sys" where
  "mp3_dispatch w api language audio_data s =
    (if api = ''google'' then
       (recognize_google w audio_data language, log (Recognize_google language) s)
     else if api = ''sphinx'' then
       (recognize_sphinx w audio_data, log Recognize_sphinx s)
     else if api = ''wit'' then
       (let key = getenv w ''WIT_AI_KEY'' in
        (recognize_wit w audio_data key language, log (Recognize_wit key language) s))
     else if api = ''bing'' then
       (let key = getenv w ''BING_KEY'' in
        (recognize_bing w audio_data key language, log (Recognize_bing key language) s))
     else if api = ''houndify'' then
       (let client_id = getenv w ''HOUNDIFY_CLIENT_ID'';
            client_key = getenv w ''HOUNDIFY_CLIENT_KEY'' in
        (recognize_houndify w audio_data client_id client_key language,
         log (Recognize_houndify client_id client_key language) s))
     else (Inl unbound_text, s))"

text \<open>Lines 153 to 156: the two handlers of the inner \<open>try\<close>; anything else goes on.\<close>

fun mp3_handlers :: "string \<Rightarrow> exc \<Rightarrow> exc + string" where
  "mp3_handlers api (UnknownValueError m) =
     Inr ''Sorry, I did not understand what you said.''"
| "mp3_handlers api (RequestError m) =
     Inr (''Could not request results from '' @ api @ '' service; '' @ m)"
| "mp3_handlers api e = Inl e"

definition mp3_recognize ::
  "world \<Rightarrow> string \<Rightarrow> string \<Rightarrow> string \<Rightarrow> sys \<Rightarrow> (exc + string) \<times> sys" where
  "mp3_recognize w api language audio_data s =
    (case mp3_dispatch w api language audio_data s of
       (Inr text, s') \<Rightarrow> (Inr text, s')
     | (Inl e, s') \<Rightarrow> (mp3_handlers api e, s'))"

text \<open>How a block of statements ends.\<close>

datatype completion = Falls_through | Returns string | Raises exc

text \<open>Lines 122 to 156: \<open>with sr.AudioFile(temp_wav_path) as source\<close>.\<close>

definition mp3_with_audio_file ::
  "world \<Rightarrow> string \<Rightarrow> string \<Rightarrow> string \<Rightarrow> sys \<Rightarrow> completion \<times> sys" where
  "mp3_with_audio_file w api language temp_wav_path s =
    (let s1 = log (Audio_file_enter temp_wav_path) s in
     case audio_file_enter w temp_wav_path of
       Some e \<Rightarrow> (Raises e, s1)
     | None \<Rightarrow>
        (let s2 = log (Record_audio temp_wav_path) s1 in
         case record_audio w temp_wav_path of
           Inl e \<Rightarrow> (Raises e, s2)
         | Inr audio_data \<Rightarrow>
            (case mp3_recognize w api language audio_data s2 of
               (Inr v, s3) \<Rightarrow> (Returns v, s3)
             | (Inl e, s3) \<Rightarrow> (Raises e, s3))))"

text \<open>
  \<open>os.unlink(path)\<close>: removes the file, or raises and leaves the file system as it was.
\<close>

definition os_unlink :: "world \<Rightarrow> string \<Rightarrow> sys \<Rightarrow> exc option \<times> sys" where
  "os_unlink w path s =
    (let s1 = log (Unlink path) s in
     case unlink_error w path of
       Some e \<Rightarrow> (Some e, s1)
     | None \<Rightarrow>
        (case files s1 path of
           None \<Rightarrow> (Some (OtherException ''FileNotFoundError''), s1)
         | Some c \<Rightarrow> (None, s1\<lparr>files := (files s1)(path := None)\<rparr>)))"

text \<open>
  Lines 110 to 162, the body of the outer \<open>try\<close> after the probe. The second component
  is the local \<open>temp_wav_path\<close>, \<open>None\<close> while it is unbound. \<open>NamedTemporaryFile\<close> with
  \<open>delete=False\<close> creates the file, \<open>export\<close> writes it. Lines 158 to 162 run when the
  \<open>with\<close> block of line 122 falls through.
\<close>

definition mp3_body ::
  "world \<Rightarrow> string \<Rightarrow> string \<Rightarrow> string \<Rightarrow> sys \<Rightarrow> completion \<times> string option \<times> sys" where
  "mp3_body w file api language s =
    (let s1 = log From_mp3 s in
     case from_mp3 w file of
       Inl e \<Rightarrow> (Raises e, None, s1)
     | Inr audio \<Rightarrow>
        (let s2 = log Named_temporary_file s1 in
         case named_temporary_file w of
           Inl e \<Rightarrow> (Raises e, None, s2)
         | Inr temp_wav_path \<Rightarrow>
            (let s3 = s2\<lparr>files := (files s2)(temp_wav_path \<mapsto> [])\<rparr>;
                 s4 = log (Export temp_wav_path) s3 in
             case export w audio temp_wav_path of
               Inl e \<Rightarrow> (Raises e, Some temp_wav_path, s4)
             | Inr wav \<Rightarrow>
                (let s5 = s4\<lparr>files := (files s4)(temp_wav_path \<mapsto> wav)\<rparr> in
                 case mp3_with_audio_file w api language temp_wav_path s5 of
                   (Falls_through, s6) \<Rightarrow>
                     (Falls_through, Some temp_wav_path, snd (os_unlink w temp_wav_path s6))
                 | (c, s6) \<Rightarrow> (c, Some temp_wav_path, s6)))))"

definition ffmpeg_missing :: string where
  "ffmpeg_missing =
     ''Error: FFmpeg is not installed. Please install FFmpeg from: https://ffmpeg.org/download.html''"

definition mp3_error :: "string \<Rightarrow> string" where
  "mp3_error m =
     ''Error processing MP3 file: '' @ m @ [CHR 0x0A] @
     ''Please make sure FFmpeg is properly installed and added to your system PATH.''"

text \<open>
  Lines 101 to 171. The probe of lines 104 to 108 has a bare \<open>except:\<close>; the handler of
  line 164 is \<open>except Exception\<close> and unlinks the temporary file when the local
  \<open>temp_wav_path\<close> is bound, ignoring a failure of the unlink. \<open>Inr None\<close> is falling off
  the end of the function, which returns Python's \<open>None\<close>.
\<close>

definition transcribe_mp3 ::
  "world \<Rightarrow> string \<Rightarrow> string \<Rightarrow> string \<Rightarrow> sys \<Rightarrow> (exc + string option) \<times> sys" where
  "transcribe_mp3 w file api language s =
    (let s1 = log Ffmpeg_version s in
     case ffmpeg_version w of
       Some e \<Rightarrow> (Inr (Some ffmpeg_missing), s1)
     | None \<Rightarrow>
        (case mp3_body w file api language s1 of
           (Returns v, loc, s2) \<Rightarrow> (Inr (Some v), s2)
         | (Falls_through, loc, s2) \<Rightarrow> (Inr None, s2)
         | (Raises e, loc, s2) \<Rightarrow>
             (if is_Exception e then
                (Inr (Some (mp3_error (str_exc e))),
                 (case loc of None \<Rightarrow> s2 | Some p \<Rightarrow> snd (os_unlink w p s2)))
              else (Inl e, s2))))"

subsection \<open>save_transcription\<close>

text \<open>\<open>strftime("%Y%m%d_%H%M%S")\<close>: zero-padded decimal fields.\<close>

definition digit :: "nat \<Rightarrow> char" where
  "digit n = ''0123456789'' ! (n mod 10)"

definition pad2 :: "nat \<Rightarrow> string" where
  "pad2 n = [digit (n div 10), digit n]"

definition pad4 :: "nat \<Rightarrow> string" where
  "pad4 n = [digit (n div 1000), digit (n div 100), digit (n div 10), digit n]"

definition strftime :: "datetime \<Rightarrow> string" where
  "strftime d =
     pad4 (year d) @ pad2 (month d) @ pad2 (day d) @ ''_'' @
     pad2 (hour d) @ pad2 (minute d) @ pad2 (second d)"

text \<open>
  The dates and times a \<open>datetime\<close> object can hold, from the year 1000 on: below
  it the padding of \<open>%Y\<close> is left to the C library of the platform.
\<close>

definition valid_datetime :: "datetime \<Rightarrow> bool" where
  "valid_datetime d \<longleftrightarrow>
     1000 \<le> year d \<and> year d \<le> 9999 \<and> 1 \<le> month d \<and> month d \<le> 12 \<and>
     1 \<le> day d \<and> day d \<le> 31 \<and> hour d < 24 \<and> minute d < 60 \<and> second d < 60"

text \<open>
  Lines 178 to 180. \<open>not filename\<close> holds of \<open>None\<close> and of the empty string; the clock
  is read here, inside the call.
\<close>

definition derive_filename :: "world \<Rightarrow> string option \<Rightarrow> sys \<Rightarrow> string \<times> sys" where
  "derive_filename w filename s =
    (if filename = None \<or> filename = Some [] then
       (let timestamp = strftime (now w) in
        (''transcription_'' @ timestamp @ ''.txt'', log Now s))
     else (case filename of Some f \<Rightarrow> (f, s) | None \<Rightarrow> ([], s)))"

text \<open>Lines 186 and 187: \<open>except Exception as e\<close>.\<close>

definition save_handler :: "exc \<Rightarrow> exc + string" where
  "save_handler e =
    (if is_Exception e then Inr (''Error saving transcription: '' @ str_exc e) else Inl e)"

text \<open>
  Lines 173 to 187. \<open>open(filename, 'w')\<close> creates or truncates the file, \<open>f.write(text)\<close>
  fills it.
\<close>

definition save_transcription ::
  "world \<Rightarrow> string \<Rightarrow> string option \<Rightarrow> sys \<Rightarrow> (exc + string) \<times> sys" where
  "save_transcription w text filename s =
    (case derive_filename w filename s of
       (fname, s1) \<Rightarrow>
        (let s2 = log (Open_write fname) s1 in
         case open_error w fname of
           Some e \<Rightarrow> (save_handler e, s2)
         | None \<Rightarrow>
            (let s3 = s2\<lparr>files := (files s2)(fname \<mapsto> [])\<rparr>;
                 s4 = log (Write fname) s3 in
             case write_error w fname text of
               Some e \<Rightarrow> (save_handler e, s4)
             | None \<Rightarrow>
                (Inr (''Transcription saved successfully to: '' @ fname),
                 s4\<lparr>files := (files s4)(fname \<mapsto> text)\<rparr>))))"

subsection \<open>Reading the specification\<close>

text \<open>
  The specification writes the derived name as \<open>transcription_<YYYYMMDD_HHMMSS>.txt\<close>:
  eight digits, an underscore, six digits, which read back as a date and a time.
\<close>

definition is_digit :: "char \<Rightarrow> bool" where
  "is_digit c \<longleftrightarrow> c \<in> set ''0123456789''"

definition stamp_shape :: "string \<Rightarrow> bool" where
  "stamp_shape t \<longleftrightarrow>
     length t = 15 \<and> list_all is_digit (take 8 t) \<and> t ! 8 = CHR ''_'' \<and>
     list_all is_digit (drop 9 t)"

definition decimal :: "string \<Rightarrow> nat" where
  "decimal ds = foldl (\<lambda>n c. 10 * n + (of_char c - 48)) 0 ds"

definition stamp_time :: "string \<Rightarrow> datetime" where
  "stamp_time t =
     \<lparr>year = decimal (take 4 t), month = decimal (take 2 (drop 4 t)),
      day = decimal (take 2 (drop 6 t)), hour = decimal (take 2 (drop 9 t)),
      minute = decimal (take 2 (drop 11 t)), second = decimal (take 2 (drop 13 t))\<rparr>"

text \<open>
  The file path of \<open>transcribe_mp3\<close> reaches the recognition step with the temporary
  file \<open>p\<close> and the audio data \<open>a\<close> when the probe, the decoding, the creation of the
  temporary file, the export and the reading of the file all succeed.
\<close>

definition mp3_reaches_recognition :: "world \<Rightarrow> string \<Rightarrow> string \<Rightarrow> string \<Rightarrow> bool" where
  "mp3_reaches_recognition w mp3 p a \<longleftrightarrow>
     ffmpeg_version w = None \<and> named_temporary_file w = Inr p \<and>
     (case from_mp3 w mp3 of
        Inl e \<Rightarrow> False
      | Inr audio \<Rightarrow> (case export w audio p of Inl e \<Rightarrow> False | Inr wav \<Rightarrow> True)) \<and>
     audio_file_enter w p = None \<and> record_audio w p = Inr a"

text \<open>The state in which the recognition step of \<open>transcribe_mp3\<close> starts.\<close>

definition staged :: "string \<Rightarrow> string \<Rightarrow> sys \<Rightarrow> sys" where
  "staged p wav s =
    (let s2 = log Named_temporary_file (log From_mp3 (log Ffmpeg_version s));
         s4 = log (Export p) (s2\<lparr>files := (files s2)(p \<mapsto> [])\<rparr>);
         s5 = s4\<lparr>files := (files s4)(p \<mapsto> wav)\<rparr>
     in log (Record_audio p) (log (Audio_file_enter p) s5))"

subsection \<open>Concrete runs\<close>

text \<open>
  What the SpeechRecognition library answers to the calls of app.py that it refuses
  before any request is sent: \<open>recognize_wit\<close> and \<open>recognize_houndify\<close> take no
  \<open>language\<close> keyword (a \<open>TypeError\<close>), and \<open>recognize_bing\<close> asserts that its key is a
  string (an \<open>AssertionError\<close> for the \<open>None\<close> of an unset variable).
\<close>

definition wit_type_error :: exc where
  "wit_type_error = OtherException
     (''Recognizer.recognize_wit() got an unexpected keyword argument '' @
      [CHR 0x27] @ ''language'' @ [CHR 0x27])"

definition houndify_type_error :: exc where
  "houndify_type_error = OtherException
     (''Recognizer.recognize_houndify() got an unexpected keyword argument '' @
      [CHR 0x27] @ ''language'' @ [CHR 0x27])"

definition key_assertion :: string where
  "key_assertion = ''``key`` must be a string''"

text \<open>
  A host on which every step succeeds, with no credential in the environment and the
  backends of that library.
\<close>

definition demo_world :: world where
  "demo_world =
    \<lparr>getenv = (\<lambda>k. None),
     microphone_enter = None,
     listen = Inr ''pcm'',
     recognize_google = (\<lambda>a l. Inr ''hello world''),
     recognize_sphinx = (\<lambda>a. Inr ''hello world''),
     recognize_wit = (\<lambda>a k l. Inl wit_type_error),
     recognize_bing = (\<lambda>a k l. case k of
        None \<Rightarrow> Inl (OtherException key_assertion)
      | Some x \<Rightarrow> Inr ''hello world''),
     recognize_houndify = (\<lambda>a i k l. Inl houndify_type_error),
     ffmpeg_version = None,
     from_mp3 = (\<lambda>f. Inr ''pcm''),
     named_temporary_file = Inr ''/tmp/tmpk3v9xq.wav'',
     export = (\<lambda>a p. Inr ''RIFF''),
     audio_file_enter = (\<lambda>p. None),
     record_audio = (\<lambda>p. Inr ''pcm''),
     unlink_error = (\<lambda>p. None),
     now = \<lparr>year = 2024, month = 3, day = 9, hour = 14, minute = 5, second = 7\<rparr>,
     open_error = (\<lambda>p. None),
     write_error = (\<lambda>p t. None)\<rparr>"

text \<open>
  The same host with \<open>BING_KEY\<close> set to a key the service rejects: the credential
  request of \<open>recognize_bing\<close> fails and the library raises \<open>RequestError\<close>.
\<close>

definition rejected_key_world :: world where
  "rejected_key_world =
    demo_world
      \<lparr>getenv := (\<lambda>k. if k = ''BING_KEY'' then Some ''0123456789abcdef'' else None),
       recognize_bing := (\<lambda>a k l. case k of
          None \<Rightarrow> Inl (OtherException key_assertion)
        | Some x \<Rightarrow> Inl (RequestError ''credential request failed: Unauthorized''))\<rparr>"

definition empty_sys :: sys where
  "empty_sys = \<lparr>files = (\<lambda>p. None), calls = []\<rparr>"

section \<open>Properties\<close>

subsection \<open>The state only grows a log\<close>

lemma calls_log [simp]: "calls (log c s) = calls s @ [c]"
  by (simp add: log_def)

lemma files_log [simp]: "files (log c s) = files s"
  by (simp add: log_def)

subsection \<open>The sphinx branch\<close>

lemma speech_dispatch_sphinx:
  "speech_dispatch w ''sphinx'' l a s = (recognize_sphinx w a, log Recognize_sphinx s)"
  by (simp add: speech_dispatch_def)

lemma mp3_dispatch_sphinx:
  "mp3_dispatch w ''sphinx'' l a s = (recognize_sphinx w a, log Recognize_sphinx s)"
  by (simp add: mp3_dispatch_def)

lemma speech_recognize_sphinx:
  "speech_recognize w ''sphinx'' l1 a s = speech_recognize w ''sphinx'' l2 a s"
  by (simp add: speech_recognize_def speech_dispatch_sphinx)

lemma mp3_recognize_sphinx:
  "mp3_recognize w ''sphinx'' l1 a s = mp3_recognize w ''sphinx'' l2 a s"
  by (simp add: mp3_recognize_def mp3_dispatch_sphinx)

lemma mp3_with_audio_file_sphinx:
  "mp3_with_audio_file w ''sphinx'' l1 p s = mp3_with_audio_file w ''sphinx'' l2 p s"
  unfolding mp3_with_audio_file_def Let_def
  by (simp add: mp3_recognize_sphinx [of w l1 _ _ l2] cong: option.case_cong sum.case_cong)

lemma mp3_body_sphinx:
  "mp3_body w mp3 ''sphinx'' l1 s = mp3_body w mp3 ''sphinx'' l2 s"
  unfolding mp3_body_def Let_def
  by (simp add: mp3_with_audio_file_sphinx [of w l1 _ _ l2] cong: option.case_cong sum.case_cong)

text \<open>
  Claim C9. With the provider sphinx the whole outcome of a call (the value returned or
  the exception raised, the files left behind and the external calls made) is the same
  for any two language tags, in \<open>transcribe_speech\<close> and in \<open>transcribe_mp3\<close>: the
  sphinx branch calls \<open>recognize_sphinx\<close> with the audio alone.
\<close>

theorem sphinx_ignores_language:
  "transcribe_speech w ''sphinx'' l1 s = transcribe_speech w ''sphinx'' l2 s \<and>
   transcribe_mp3 w mp3 ''sphinx'' l1 s = transcribe_mp3 w mp3 ''sphinx'' l2 s"
  unfolding transcribe_speech_def transcribe_mp3_def Let_def
  by (simp add: speech_recognize_sphinx [of w l1 _ _ l2] mp3_body_sphinx [of w mp3 l1 _ l2]
      cong: option.case_cong sum.case_cong)

subsection \<open>The name of the saved file\<close>

text \<open>
  Claim C10. \<open>save_transcription(text, "")\<close> does exactly what
  \<open>save_transcription(text)\<close> does: it reads the clock and opens
  \<open>transcription_<timestamp>.txt\<close>, not a file named by the empty string.
\<close>

theorem empty_filename_as_absent:
  "save_transcription w text (Some []) s = save_transcription w text None s \<and>
   derive_filename w (Some []) s =
     (''transcription_'' @ strftime (now w) @ ''.txt'', log Now s) \<and>
   prefix (calls s @ [Now, Open_write (''transcription_'' @ strftime (now w) @ ''.txt'')])
     (calls (snd (save_transcription w text (Some []) s)))"
proof -
  let ?f = "''transcription_'' @ strftime (now w) @ ''.txt''"
  have d: "derive_filename w (Some []) s = (?f, log Now s)"
    and d': "derive_filename w None s = (?f, log Now s)"
    by (simp_all add: derive_filename_def)
  have "prefix (calls s @ [Now, Open_write ?f])
          (calls (snd (save_transcription w text (Some []) s)))"
    by (cases "open_error w ?f"; cases "write_error w ?f text")
       (simp_all add: save_transcription_def d Let_def)
  then show ?thesis
    by (simp add: d, simp add: save_transcription_def d d')
qed

subsection \<open>The file path up to the recognition step\<close>

lemma calls_staged [simp]:
  "calls (staged p wav s) =
     calls s @ [Ffmpeg_version, From_mp3, Named_temporary_file, Export p,
                Audio_file_enter p, Record_audio p]"
  by (simp add: staged_def Let_def)

lemma files_staged [simp]: "files (staged p wav s) = (files s)(p \<mapsto> wav)"
  by (simp add: staged_def Let_def)

lemma mp3_with_audio_file_returns_or_raises:
  "fst (mp3_with_audio_file w api language p s) \<noteq> Falls_through"
  by (simp add: mp3_with_audio_file_def Let_def split: option.splits sum.splits prod.splits)

lemma transcribe_mp3_staged:
  assumes "ffmpeg_version w = None" and "from_mp3 w mp3 = Inr audio"
    and "named_temporary_file w = Inr p" and "export w audio p = Inr wav"
    and "audio_file_enter w p = None" and "record_audio w p = Inr a"
  shows "transcribe_mp3 w mp3 api l s =
    (case mp3_recognize w api l a (staged p wav s) of
       (Inr v, s') \<Rightarrow> (Inr (Some v), s')
     | (Inl e, s') \<Rightarrow>
        (if is_Exception e then (Inr (Some (mp3_error (str_exc e))), snd (os_unlink w p s'))
         else (Inl e, s')))"
  using assms
  by (cases "mp3_recognize w api l a (staged p wav s)")
     (simp add: transcribe_mp3_def mp3_body_def mp3_with_audio_file_def staged_def Let_def
        split: sum.splits)

lemma transcribe_mp3_ready:
  assumes "mp3_reaches_recognition w mp3 p a"
  shows "\<exists>wav. transcribe_mp3 w mp3 api l s =
    (case mp3_recognize w api l a (staged p wav s) of
       (Inr v, s') \<Rightarrow> (Inr (Some v), s')
     | (Inl e, s') \<Rightarrow>
        (if is_Exception e then (Inr (Some (mp3_error (str_exc e))), snd (os_unlink w p s'))
         else (Inl e, s')))"
proof -
  from assms obtain audio wav where "from_mp3 w mp3 = Inr audio" "export w audio p = Inr wav"
    by (auto simp add: mp3_reaches_recognition_def split: sum.splits)
  with assms show ?thesis
    using transcribe_mp3_staged [of w mp3 audio p wav a api l s]
    by (auto simp add: mp3_reaches_recognition_def)
qed


lemma mp3_dispatch_google:
  "mp3_dispatch w ''google'' l a s = (recognize_google w a l, log (Recognize_google l) s)"
  by (simp add: mp3_dispatch_def)


lemma mp3_dispatch_bing:
  "mp3_dispatch w ''bing'' l a s =
     (recognize_bing w a (getenv w ''BING_KEY'') l,
      log (Recognize_bing (getenv w ''BING_KEY'') l) s)"
  by (simp add: mp3_dispatch_def Let_def)


lemma mp3_dispatch_unknown:
  "api \<notin> {''google'', ''sphinx'', ''wit'', ''bing'', ''houndify''} \<Longrightarrow>
   mp3_dispatch w api l a s = (Inl unbound_text, s)"
  by (simp add: mp3_dispatch_def)

lemma speech_dispatch_unknown:
  "api \<notin> {''google'', ''sphinx'', ''wit'', ''bing'', ''houndify''} \<Longrightarrow>
   speech_dispatch w api l a s = (Inl unbound_text, s)"
  by (simp add: speech_dispatch_def)

lemma demo_ready: "mp3_reaches_recognition demo_world ''ID3'' ''/tmp/tmpk3v9xq.wav'' ''pcm''"
  by (simp add: mp3_reaches_recognition_def demo_world_def)

lemma demo_mp3:
  "transcribe_mp3 demo_world ''ID3'' api l s =
    (case mp3_recognize demo_world api l ''pcm'' (staged ''/tmp/tmpk3v9xq.wav'' ''RIFF'' s) of
       (Inr v, s') \<Rightarrow> (Inr (Some v), s')
     | (Inl e, s') \<Rightarrow>
        (if is_Exception e
         then (Inr (Some (mp3_error (str_exc e))), snd (os_unlink demo_world ''/tmp/tmpk3v9xq.wav'' s'))
         else (Inl e, s')))"
  by (rule transcribe_mp3_staged) (simp_all add: demo_world_def)

lemma os_unlink_calls: "calls (snd (os_unlink w p s)) = calls s @ [Unlink p]"
  by (simp add: os_unlink_def Let_def split: option.splits)

lemma mp3_body_returns_or_raises:
  "fst (mp3_body w mp3 api l s) \<noteq> Falls_through"
proof (cases "from_mp3 w mp3")
  case (Inl e)
  then show ?thesis by (simp add: mp3_body_def)
next
  case audio: (Inr audio)
  show ?thesis
  proof (cases "named_temporary_file w")
    case (Inl e)
    with audio show ?thesis by (simp add: mp3_body_def)
  next
    case p: (Inr p)
    show ?thesis
    proof (cases "export w audio p")
      case (Inl e)
      with audio p show ?thesis by (simp add: mp3_body_def)
    next
      case wav: (Inr wav)
      let ?s2 = "log Named_temporary_file (log From_mp3 s)"
      let ?s4 = "log (Export p) (?s2\<lparr>files := (files ?s2)(p \<mapsto> [])\<rparr>)"
      let ?s5 = "?s4\<lparr>files := (files ?s4)(p \<mapsto> wav)\<rparr>"
      obtain c s6 where r: "mp3_with_audio_file w api l p ?s5 = (c, s6)"
        by (cases "mp3_with_audio_file w api l p ?s5")
      then have "c \<noteq> Falls_through"
        using mp3_with_audio_file_returns_or_raises [of w api l p ?s5] by simp
      with audio p wav r show ?thesis
        by (cases c) (simp_all add: mp3_body_def Let_def)
    qed
  qed
qed

lemma transcribe_speech_listening:
  "microphone_enter w = None \<Longrightarrow> listen w = Inr a \<Longrightarrow>
   transcribe_speech w api l s = speech_recognize w api l a (log Listen (log Microphone_enter s))"
  by (simp add: transcribe_speech_def)

subsection \<open>Identifiers outside the five providers\<close>

text \<open>
  Against claim C3 as it is stated: with the identifier \<open>azure\<close> neither function lets a
  fault go up to the caller; both return a message.
\<close>

theorem unknown_provider_counterexample:
  "fst (transcribe_speech demo_world ''azure'' ''en-US'' empty_sys) =
     Inr (''An unexpected error occurred during transcription: '' @ str_exc unbound_text) \<and>
   fst (transcribe_mp3 demo_world ''ID3'' ''azure'' ''en-US'' empty_sys) =
     Inr (Some (mp3_error (str_exc unbound_text)))"
proof -
  have u: "''azure'' \<notin> {''google'', ''sphinx'', ''wit'', ''bing'', ''houndify''}" by simp
  have "fst (transcribe_speech demo_world ''azure'' ''en-US'' empty_sys) =
     Inr (''An unexpected error occurred during transcription: '' @ str_exc unbound_text)"
    by (simp add: transcribe_speech_def speech_recognize_def speech_dispatch_unknown [OF u]
        demo_world_def unbound_text_def)
  moreover have "fst (transcribe_mp3 demo_world ''ID3'' ''azure'' ''en-US'' empty_sys) =
     Inr (Some (mp3_error (str_exc unbound_text)))"
    by (simp add: demo_mp3 mp3_recognize_def mp3_dispatch_unknown [OF u] unbound_text_def)
  ultimately show ?thesis by simp
qed

text \<open>
  Claim C3, amended. For every identifier outside google, sphinx, wit, bing and houndify
  the \<open>UnboundLocalError\<close> of \<open>return text\<close> is caught by \<open>except Exception\<close>: once the
  audio is recorded \<open>transcribe_speech\<close> returns the message "An unexpected error
  occurred during transcription: ..." having called no backend, and once the file path
  has reached the recognition step \<open>transcribe_mp3\<close> returns the message "Error processing
  MP3 file: ..." having called no backend and having unlinked the temporary file.
\<close>

theorem unknown_provider_becomes_message:
  assumes "api \<notin> {''google'', ''sphinx'', ''wit'', ''bing'', ''houndify''}"
  shows "(microphone_enter w = None \<and> listen w = Inr a \<longrightarrow>
           transcribe_speech w api l s =
             (Inr (''An unexpected error occurred during transcription: '' @ str_exc unbound_text),
              log Listen (log Microphone_enter s))) \<and>
         (mp3_reaches_recognition w mp3 p a \<longrightarrow>
           fst (transcribe_mp3 w mp3 api l s) = Inr (Some (mp3_error (str_exc unbound_text))) \<and>
           calls (snd (transcribe_mp3 w mp3 api l s)) =
             calls s @ [Ffmpeg_version, From_mp3, Named_temporary_file, Export p,
                        Audio_file_enter p, Record_audio p, Unlink p])"
proof (intro conjI impI)
  assume "microphone_enter w = None \<and> listen w = Inr a"
  then show "transcribe_speech w api l s =
      (Inr (''An unexpected error occurred during transcription: '' @ str_exc unbound_text),
       log Listen (log Microphone_enter s))"
    by (simp add: transcribe_speech_listening speech_recognize_def
        speech_dispatch_unknown [OF assms] unbound_text_def)
next
  assume r: "mp3_reaches_recognition w mp3 p a"
  from transcribe_mp3_ready [OF r, of api l s] obtain wav where
    t: "transcribe_mp3 w mp3 api l s =
      (case mp3_recognize w api l a (staged p wav s) of
         (Inr v, s') \<Rightarrow> (Inr (Some v), s')
       | (Inl e, s') \<Rightarrow>
          (if is_Exception e then (Inr (Some (mp3_error (str_exc e))), snd (os_unlink w p s'))
           else (Inl e, s')))" ..
  have m: "mp3_recognize w api l a (staged p wav s) = (Inl unbound_text, staged p wav s)"
    by (simp add: mp3_recognize_def mp3_dispatch_unknown [OF assms] unbound_text_def)
  have e: "is_Exception unbound_text" by (simp add: unbound_text_def)
  show "fst (transcribe_mp3 w mp3 api l s) = Inr (Some (mp3_error (str_exc unbound_text)))"
    by (simp add: t m e)
  show "calls (snd (transcribe_mp3 w mp3 api l s)) =
      calls s @ [Ffmpeg_version, From_mp3, Named_temporary_file, Export p,
                 Audio_file_enter p, Record_audio p, Unlink p]"
    by (simp add: t m e os_unlink_calls)
qed

theorem unknown_provider_becomes_message_witness:
  "''azure'' \<notin> {''google'', ''sphinx'', ''wit'', ''bing'', ''houndify''} \<and>
   microphone_enter demo_world = None \<and> listen demo_world = Inr ''pcm'' \<and>
   mp3_reaches_recognition demo_world ''ID3'' ''/tmp/tmpk3v9xq.wav'' ''pcm'' \<and>
   transcribe_speech demo_world ''azure'' ''en-US'' empty_sys =
     (Inr (''An unexpected error occurred during transcription: '' @ str_exc unbound_text),
      log Listen (log Microphone_enter empty_sys)) \<and>
   fst (transcribe_mp3 demo_world ''ID3'' ''azure'' ''en-US'' empty_sys) =
     Inr (Some (mp3_error (str_exc unbound_text))) \<and>
   calls (snd (transcribe_mp3 demo_world ''ID3'' ''azure'' ''en-US'' empty_sys)) =
     [Ffmpeg_version, From_mp3, Named_temporary_file, Export ''/tmp/tmpk3v9xq.wav'',
      Audio_file_enter ''/tmp/tmpk3v9xq.wav'', Record_audio ''/tmp/tmpk3v9xq.wav'',
      Unlink ''/tmp/tmpk3v9xq.wav'']"
proof -
  have u: "''azure'' \<notin> {''google'', ''sphinx'', ''wit'', ''bing'', ''houndify''}" by simp
  have m: "microphone_enter demo_world = None \<and> listen demo_world = Inr ''pcm''"
    by (simp add: demo_world_def)
  have c: "calls empty_sys = []" by (simp add: empty_sys_def)
  show ?thesis
    using unknown_provider_becomes_message [OF u, of demo_world "''pcm''" "''en-US''" empty_sys "''ID3''"
        "''/tmp/tmpk3v9xq.wav''"] u m demo_ready c
    by simp
qed

subsection \<open>The shape of the results\<close>

text \<open>
  Against claim C4 as it is stated: a recording of somebody saying "Sorry, I did not
  understand what you said." that google transcribes, and a recording google cannot
  understand, give the caller the same value.
\<close>

theorem result_shape_counterexample:
  "recognize_google
     (demo_world\<lparr>recognize_google := (\<lambda>a l. Inr ''Sorry, I did not understand what you said.'')\<rparr>)
     ''pcm'' ''en-US'' = Inr ''Sorry, I did not understand what you said.'' \<and>
   recognize_google
     (demo_world\<lparr>recognize_google := (\<lambda>a l. Inl (UnknownValueError []))\<rparr>)
     ''pcm'' ''en-US'' = Inl (UnknownValueError []) \<and>
   fst (transcribe_mp3
     (demo_world\<lparr>recognize_google := (\<lambda>a l. Inr ''Sorry, I did not understand what you said.'')\<rparr>)
     ''ID3'' ''google'' ''en-US'' empty_sys) =
   fst (transcribe_mp3
     (demo_world\<lparr>recognize_google := (\<lambda>a l. Inl (UnknownValueError []))\<rparr>)
     ''ID3'' ''google'' ''en-US'' empty_sys)"
proof -
  let ?ok = "demo_world\<lparr>recognize_google := (\<lambda>a l. Inr ''Sorry, I did not understand what you said.'')\<rparr>"
  let ?ko = "demo_world\<lparr>recognize_google := (\<lambda>a l. Inl (UnknownValueError []))\<rparr>"
  have ok: "fst (transcribe_mp3 ?ok ''ID3'' ''google'' ''en-US'' empty_sys) =
      Inr (Some ''Sorry, I did not understand what you said.'')"
    by (subst transcribe_mp3_staged [where audio = "''pcm''" and p = "''/tmp/tmpk3v9xq.wav''"
          and wav = "''RIFF''" and a = "''pcm''"])
       (simp_all add: demo_world_def mp3_recognize_def mp3_dispatch_google)
  have ko: "fst (transcribe_mp3 ?ko ''ID3'' ''google'' ''en-US'' empty_sys) =
      Inr (Some ''Sorry, I did not understand what you said.'')"
    by (subst transcribe_mp3_staged [where audio = "''pcm''" and p = "''/tmp/tmpk3v9xq.wav''"
          and wav = "''RIFF''" and a = "''pcm''"])
       (simp_all add: demo_world_def mp3_recognize_def mp3_dispatch_google)
  show ?thesis by (simp add: ok ko)
qed

text \<open>
  Claim C4, amended. What \<open>transcribe_mp3\<close> returns, and what \<open>transcribe_speech\<close>
  returns once the microphone is acquired, is always a plain string, the transcript or
  a message, never Python's \<open>None\<close> and never a tagged value, so a transcript and a
  failure do not differ in shape. Of what the library calls raise, only an exception
  that is not an \<open>Exception\<close> can leave the function.
\<close>

theorem results_are_plain_strings:
  "((\<exists>t. fst (transcribe_mp3 w mp3 api l s) = Inr (Some t)) \<or>
    (\<exists>m. fst (transcribe_mp3 w mp3 api l s) = Inl (NonException m))) \<and>
   (microphone_enter w = None \<longrightarrow>
      (\<exists>t. fst (transcribe_speech w api l s) = Inr t) \<or>
      (\<exists>m. fst (transcribe_speech w api l s) = Inl (NonException m)))"
proof (intro conjI impI)
  show "(\<exists>t. fst (transcribe_mp3 w mp3 api l s) = Inr (Some t)) \<or>
    (\<exists>m. fst (transcribe_mp3 w mp3 api l s) = Inl (NonException m))"
  proof (cases "ffmpeg_version w")
    case (Some e)
    then show ?thesis by (simp add: transcribe_mp3_def)
  next
    case None
    obtain c loc s2 where b: "mp3_body w mp3 api l (log Ffmpeg_version s) = (c, loc, s2)"
      by (cases "mp3_body w mp3 api l (log Ffmpeg_version s)")
    then have nf: "c \<noteq> Falls_through"
      using mp3_body_returns_or_raises [of w mp3 api l "log Ffmpeg_version s"] by simp
    show ?thesis
    proof (cases c)
      case Falls_through
      with nf show ?thesis by simp
    next
      case (Returns v)
      with None b show ?thesis by (simp add: transcribe_mp3_def)
    next
      case (Raises e)
      with None b show ?thesis by (cases e) (simp_all add: transcribe_mp3_def)
    qed
  qed
next
  assume mic: "microphone_enter w = None"
  have h1: "(\<exists>t. listen_handlers e = Inr t) \<or> (\<exists>m. listen_handlers e = Inl (NonException m))" for e
    by (cases e) simp_all
  have h2: "(\<exists>t. speech_handlers api e = Inr t) \<or> (\<exists>m. speech_handlers api e = Inl (NonException m))" for e
    by (cases e) simp_all
  have h3: "(\<exists>t. fst (speech_recognize w api l a s') = Inr t) \<or>
            (\<exists>m. fst (speech_recognize w api l a s') = Inl (NonException m))" for a s'
  proof -
    obtain r s'' where d: "speech_dispatch w api l a s' = (r, s'')"
      by (cases "speech_dispatch w api l a s'")
    show ?thesis
    proof (cases r)
      case (Inl e)
      with d h2 [of e] show ?thesis by (auto simp add: speech_recognize_def)
    next
      case (Inr v)
      with d show ?thesis by (simp add: speech_recognize_def)
    qed
  qed
  show "(\<exists>t. fst (transcribe_speech w api l s) = Inr t) \<or>
    (\<exists>m. fst (transcribe_speech w api l s) = Inl (NonException m))"
  proof (cases "listen w")
    case (Inl e)
    with mic h1 [of e] show ?thesis by (auto simp add: transcribe_speech_def)
  next
    case (Inr a)
    with mic h3 [of a "log Listen (log Microphone_enter s)"] show ?thesis
      by (auto simp add: transcribe_speech_def)
  qed
qed

theorem results_are_plain_strings_witness:
  "microphone_enter demo_world = None \<and>
   ((\<exists>t. fst (transcribe_mp3 demo_world ''ID3'' ''google'' ''en-US'' empty_sys) = Inr (Some t)) \<or>
    (\<exists>m. fst (transcribe_mp3 demo_world ''ID3'' ''google'' ''en-US'' empty_sys) =
       Inl (NonException m))) \<and>
   ((\<exists>t. fst (transcribe_speech demo_world ''google'' ''en-US'' empty_sys) = Inr t) \<or>
    (\<exists>m. fst (transcribe_speech demo_world ''google'' ''en-US'' empty_sys) =
       Inl (NonException m)))"
proof -
  have m: "microphone_enter demo_world = None" by (simp add: demo_world_def)
  from results_are_plain_strings [of demo_world "''ID3''" "''google''" "''en-US''" empty_sys] m
  show ?thesis by blast
qed

subsection \<open>The microphone\<close>

text \<open>
  Claim C5 (capture never raises past its boundary, also when the microphone cannot be
  acquired) fails on the code. On a host without an input device the exception of
  \<open>sr.Microphone()\<close> leaves \<open>transcribe_speech\<close>: line 35 stands outside the \<open>try\<close>
  statements of lines 38 and 50.
\<close>

theorem microphone_failure_escapes:
  "transcribe_speech
     (demo_world\<lparr>microphone_enter := Some (OtherException ''No Default Input Device Available'')\<rparr>)
     ''google'' ''en-US'' empty_sys =
   (Inl (OtherException ''No Default Input Device Available''), log Microphone_enter empty_sys)"
  by (simp add: transcribe_speech_def demo_world_def)

subsection \<open>Request failures of bing\<close>

text \<open>
  Claim C7 (a failed request of wit or bing is reported as a credentials problem in
  both paths) fails on the code in \<open>transcribe_mp3\<close>. With \<open>BING_KEY\<close> set to a key the
  service rejects, \<open>recognize_bing\<close> raises \<open>RequestError\<close>: \<open>transcribe_speech\<close>, whose
  bing branch has the handler of lines 78 and 79, returns the message that asks to check
  the API key, and \<open>transcribe_mp3\<close>, whose bing branch has no handler of its own,
  returns the generic message of line 156.
\<close>

theorem mp3_request_error_generic_message:
  "getenv rejected_key_world ''BING_KEY'' = Some ''0123456789abcdef'' \<and>
   recognize_bing rejected_key_world ''pcm'' (Some ''0123456789abcdef'') ''en-US'' =
     Inl (RequestError ''credential request failed: Unauthorized'') \<and>
   fst (transcribe_speech rejected_key_world ''bing'' ''en-US'' empty_sys) =
     Inr ''Could not request results from Microsoft Bing service. Please check your API key.'' \<and>
   fst (transcribe_mp3 rejected_key_world ''ID3'' ''bing'' ''en-US'' empty_sys) =
     Inr (Some ''Could not request results from bing service; credential request failed: Unauthorized'')"
proof -
  have k: "getenv rejected_key_world ''BING_KEY'' = Some ''0123456789abcdef''"
    by (simp add: rejected_key_world_def)
  have f: "recognize_bing rejected_key_world ''pcm'' (Some ''0123456789abcdef'') ''en-US'' =
      Inl (RequestError ''credential request failed: Unauthorized'')"
    by (simp add: rejected_key_world_def)
  have sp: "fst (transcribe_speech rejected_key_world ''bing'' ''en-US'' empty_sys) =
      Inr ''Could not request results from Microsoft Bing service. Please check your API key.''"
    by (simp add: transcribe_speech_def speech_recognize_def speech_dispatch_def
        rejected_key_world_def demo_world_def)
  have mp: "fst (transcribe_mp3 rejected_key_world ''ID3'' ''bing'' ''en-US'' empty_sys) =
      Inr (Some ''Could not request results from bing service; credential request failed: Unauthorized'')"
    by (subst transcribe_mp3_staged [where audio = "''pcm''" and p = "''/tmp/tmpk3v9xq.wav''"
          and wav = "''RIFF''" and a = "''pcm''"])
       (simp_all add: rejected_key_world_def demo_world_def mp3_recognize_def mp3_dispatch_bing)
  from k f sp mp show ?thesis by simp
qed

subsection \<open>The probe for ffmpeg\<close>

lemma mp3_dispatch_calls:
  "prefix (calls s) (calls (snd (mp3_dispatch w api l a s)))"
  by (simp add: mp3_dispatch_def Let_def)

lemma snd_mp3_recognize:
  "snd (mp3_recognize w api l a s) = snd (mp3_dispatch w api l a s)"
  by (cases "mp3_dispatch w api l a s") (simp add: mp3_recognize_def split: sum.splits)

lemma mp3_with_audio_file_calls:
  "prefix (calls s) (calls (snd (mp3_with_audio_file w api l p s)))"
proof (cases "audio_file_enter w p")
  case (Some e)
  then show ?thesis by (simp add: mp3_with_audio_file_def)
next
  case None
  show ?thesis
  proof (cases "record_audio w p")
    case (Inl e)
    with None show ?thesis by (simp add: mp3_with_audio_file_def)
  next
    case (Inr a)
    let ?s2 = "log (Record_audio p) (log (Audio_file_enter p) s)"
    have "snd (mp3_with_audio_file w api l p s) = snd (mp3_dispatch w api l a ?s2)"
      using None Inr snd_mp3_recognize [of w api l a ?s2]
      by (cases "mp3_recognize w api l a ?s2")
         (simp add: mp3_with_audio_file_def split: sum.splits)
    moreover have "prefix (calls s) (calls ?s2)" by simp
    moreover have "prefix (calls ?s2) (calls (snd (mp3_dispatch w api l a ?s2)))"
      by (rule mp3_dispatch_calls)
    ultimately show ?thesis by (simp only: prefix_order.trans)
  qed
qed

lemma mp3_body_calls:
  "prefix (calls s) (calls (snd (snd (mp3_body w mp3 api l s))))"
proof (cases "from_mp3 w mp3")
  case (Inl e)
  then show ?thesis by (simp add: mp3_body_def)
next
  case audio: (Inr audio)
  show ?thesis
  proof (cases "named_temporary_file w")
    case (Inl e)
    with audio show ?thesis by (simp add: mp3_body_def)
  next
    case p: (Inr p)
    show ?thesis
    proof (cases "export w audio p")
      case (Inl e)
      with audio p show ?thesis by (simp add: mp3_body_def)
    next
      case wav: (Inr wav)
      let ?s2 = "log Named_temporary_file (log From_mp3 s)"
      let ?s4 = "log (Export p) (?s2\<lparr>files := (files ?s2)(p \<mapsto> [])\<rparr>)"
      let ?s5 = "?s4\<lparr>files := (files ?s4)(p \<mapsto> wav)\<rparr>"
      obtain c s6 where r: "mp3_with_audio_file w api l p ?s5 = (c, s6)"
        by (cases "mp3_with_audio_file w api l p ?s5")
      have "prefix (calls s) (calls ?s5)" by simp
      moreover have "prefix (calls ?s5) (calls s6)"
        using mp3_with_audio_file_calls [of ?s5 w api l p] r by simp
      ultimately have 1: "prefix (calls s) (calls s6)" by (rule prefix_order.trans)
      then have 2: "prefix (calls s) (calls (snd (os_unlink w p s6)))"
        by (simp add: os_unlink_calls)
      from audio p wav r 1 2 show ?thesis
        by (cases c) (simp_all add: mp3_body_def Let_def)
    qed
  qed
qed

lemma transcribe_mp3_probes_first:
  "prefix (calls s @ [Ffmpeg_version]) (calls (snd (transcribe_mp3 w mp3 api l s)))"
proof (cases "ffmpeg_version w")
  case (Some e)
  then show ?thesis by (simp add: transcribe_mp3_def)
next
  case None
  let ?s1 = "log Ffmpeg_version s"
  obtain c loc s2 where b: "mp3_body w mp3 api l ?s1 = (c, loc, s2)"
    by (cases "mp3_body w mp3 api l ?s1")
  have 1: "prefix (calls s @ [Ffmpeg_version]) (calls s2)"
    using mp3_body_calls [of ?s1 w mp3 api l] b by simp
  then have 2: "prefix (calls s @ [Ffmpeg_version]) (calls (snd (os_unlink w q s2)))" for q
    by (simp add: os_unlink_calls)
  show ?thesis
  proof (cases c)
    case Falls_through
    with None b 1 show ?thesis by (simp add: transcribe_mp3_def)
  next
    case (Returns v)
    with None b 1 show ?thesis by (simp add: transcribe_mp3_def)
  next
    case (Raises e)
    with None b 1 2 show ?thesis
      by (cases loc) (simp_all add: transcribe_mp3_def)
  qed
qed

lemma ffmpeg_missing_not_mp3_error: "ffmpeg_missing \<noteq> mp3_error m"
  by (simp add: ffmpeg_missing_def mp3_error_def)

text \<open>
  Claim C6. \<open>transcribe_mp3\<close> probes for ffmpeg before anything else: in every run the
  first external call is the probe. When the probe raises (the executable is absent),
  the function returns the "FFmpeg is not installed" message, which differs from every
  "Error processing MP3 file" message of a failed decoding, and the probe is the only
  external call made: nothing is decoded and no exception goes up.
\<close>

theorem missing_ffmpeg_reported_before_decoding:
  "prefix (calls s @ [Ffmpeg_version]) (calls (snd (transcribe_mp3 w mp3 api l s))) \<and>
   (ffmpeg_version w = Some e \<longrightarrow>
      transcribe_mp3 w mp3 api l s = (Inr (Some ffmpeg_missing), log Ffmpeg_version s) \<and>
      ffmpeg_missing \<noteq> mp3_error m)"
proof (intro conjI impI)
  show "prefix (calls s @ [Ffmpeg_version]) (calls (snd (transcribe_mp3 w mp3 api l s)))"
    by (rule transcribe_mp3_probes_first)
  show "ffmpeg_missing \<noteq> mp3_error m"
    by (rule ffmpeg_missing_not_mp3_error)
  assume "ffmpeg_version w = Some e"
  then show "transcribe_mp3 w mp3 api l s = (Inr (Some ffmpeg_missing), log Ffmpeg_version s)"
    by (simp add: transcribe_mp3_def)
qed

theorem missing_ffmpeg_reported_before_decoding_witness:
  "ffmpeg_version (demo_world\<lparr>ffmpeg_version := Some (OtherException ''No such file or directory: ffmpeg'')\<rparr>)
     = Some (OtherException ''No such file or directory: ffmpeg'') \<and>
   transcribe_mp3 (demo_world\<lparr>ffmpeg_version := Some (OtherException ''No such file or directory: ffmpeg'')\<rparr>)
     ''ID3'' ''google'' ''en-US'' empty_sys =
     (Inr (Some ffmpeg_missing), log Ffmpeg_version empty_sys) \<and>
   calls (log Ffmpeg_version empty_sys) = [Ffmpeg_version] \<and>
   ffmpeg_missing \<noteq> mp3_error ''Decoding failed''"
  using missing_ffmpeg_reported_before_decoding [of empty_sys "demo_world\<lparr>ffmpeg_version := Some (OtherException ''No such file or directory: ffmpeg'')\<rparr>"
      "''ID3''" "''google''" "''en-US''" "OtherException ''No such file or directory: ffmpeg''" "''Decoding failed''"]
  by (simp add: empty_sys_def)

subsection \<open>The derived file name\<close>

lemma digit_cases:
  assumes "k < (10::nat)"
  shows "k = 0 \<or> k = 1 \<or> k = 2 \<or> k = 3 \<or> k = 4 \<or> k = 5 \<or> k = 6 \<or> k = 7 \<or> k = 8 \<or> k = 9"
  using assms by arith

lemma digit_value: "of_char (digit n) - 48 = n mod 10"
proof -
  have "n mod 10 < 10" by simp
  from digit_cases [OF this] show ?thesis
    by (elim disjE) (simp_all add: digit_def)
qed

lemma is_digit_digit: "is_digit (digit n)"
proof -
  have "n mod 10 < 10" by simp
  from digit_cases [OF this] show ?thesis
    by (elim disjE) (simp_all add: digit_def is_digit_def)
qed

lemma decimal_pad2: "n < 100 \<Longrightarrow> decimal (pad2 n) = n"
  by (simp add: decimal_def pad2_def digit_value)

lemma four_digits:
  "1000 * (n div 1000) + 100 * (n div 100 mod 10) + 10 * (n div 10 mod 10) + n mod 10 = (n::nat)"
proof -
  define x where "x = n div 10"
  define y where "y = x div 10"
  define z where "z = y div 10"
  have y: "n div 100 = y" and z: "n div 1000 = z"
    by (simp_all add: x_def y_def z_def div_mult2_eq [symmetric])
  have "n = 10 * x + n mod 10" and "x = 10 * y + x mod 10" and "y = 10 * z + y mod 10"
    by (simp_all add: x_def y_def z_def)
  then show ?thesis
    unfolding y z x_def [symmetric] by linarith
qed

lemma decimal_pad4: "n < 10000 \<Longrightarrow> decimal (pad4 n) = n"
  by (simp add: decimal_def pad4_def digit_value four_digits)

lemma length_pad2: "length (pad2 n) = 2" by (simp add: pad2_def)
lemma length_pad4: "length (pad4 n) = 4" by (simp add: pad4_def)

lemma stamp_shape_strftime: "stamp_shape (strftime d)"
  by (simp add: stamp_shape_def strftime_def pad2_def pad4_def is_digit_digit)

lemma stamp_time_strftime:
  assumes "valid_datetime d"
  shows "stamp_time (strftime d) = d"
proof -
  from assms have b: "year d < 10000" "month d < 100" "day d < 100" "hour d < 100"
    "minute d < 100" "second d < 100"
    by (simp_all add: valid_datetime_def)
  have "stamp_time (strftime d) =
      \<lparr>year = decimal (pad4 (year d)), month = decimal (pad2 (month d)),
       day = decimal (pad2 (day d)), hour = decimal (pad2 (hour d)),
       minute = decimal (pad2 (minute d)), second = decimal (pad2 (second d))\<rparr>"
    by (simp add: stamp_time_def strftime_def length_pad2 length_pad4)
  with b show ?thesis by (simp add: decimal_pad2 decimal_pad4)
qed

lemma save_transcription_opens:
  "prefix (calls s @ [Now, Open_write (''transcription_'' @ strftime (now w) @ ''.txt'')])
     (calls (snd (save_transcription w text None s)))"
proof -
  let ?f = "''transcription_'' @ strftime (now w) @ ''.txt''"
  have d: "derive_filename w None s = (?f, log Now s)"
    by (simp add: derive_filename_def)
  show ?thesis
    by (cases "open_error w ?f"; cases "write_error w ?f text")
       (simp_all add: save_transcription_def d Let_def)
qed

lemma demo_strftime: "strftime (now demo_world) = ''20240309_140507''"
  by (simp add: demo_world_def strftime_def pad2_def pad4_def digit_def)

text \<open>
  Claim C8. With no file name given, \<open>save_transcription\<close> reads the clock during the
  call and opens the file \<open>transcription_<YYYYMMDD_HHMMSS>.txt\<close> whose stamp has the
  shape of eight digits, an underscore and six digits and reads back as exactly the
  date and time the clock gave at that moment; no other time enters the name.
\<close>

theorem derived_filename_from_clock_at_call:
  assumes "valid_datetime (now w)"
  shows "derive_filename w None s =
           (''transcription_'' @ strftime (now w) @ ''.txt'', log Now s) \<and>
         stamp_shape (strftime (now w)) \<and> stamp_time (strftime (now w)) = now w \<and>
         prefix (calls s @ [Now, Open_write (''transcription_'' @ strftime (now w) @ ''.txt'')])
           (calls (snd (save_transcription w text None s)))"
proof (intro conjI)
  show "derive_filename w None s =
      (''transcription_'' @ strftime (now w) @ ''.txt'', log Now s)"
    by (simp add: derive_filename_def)
  show "stamp_shape (strftime (now w))"
    by (rule stamp_shape_strftime)
  show "stamp_time (strftime (now w)) = now w"
    using assms by (rule stamp_time_strftime)
  show "prefix (calls s @ [Now, Open_write (''transcription_'' @ strftime (now w) @ ''.txt'')])
      (calls (snd (save_transcription w text None s)))"
    by (rule save_transcription_opens)
qed

theorem derived_filename_from_clock_at_call_witness:
  "valid_datetime (now demo_world) \<and>
   derive_filename demo_world None empty_sys =
     (''transcription_20240309_140507.txt'', log Now empty_sys) \<and>
   stamp_shape ''20240309_140507'' \<and>
   stamp_time ''20240309_140507'' =
     \<lparr>year = 2024, month = 3, day = 9, hour = 14, minute = 5, second = 7\<rparr> \<and>
   prefix [Now, Open_write ''transcription_20240309_140507.txt'']
     (calls (snd (save_transcription demo_world ''hello world'' None empty_sys)))"
proof -
  have v: "valid_datetime (now demo_world)"
    by (simp add: valid_datetime_def demo_world_def)
  have n: "now demo_world = \<lparr>year = 2024, month = 3, day = 9, hour = 14, minute = 5, second = 7\<rparr>"
    by (simp add: demo_world_def)
  have c: "calls empty_sys = []" by (simp add: empty_sys_def)
  note h = derived_filename_from_clock_at_call [OF v, of empty_sys "''hello world''", unfolded demo_strftime]
  from h v show ?thesis
    by (simp add: n c)
qed

subsection \<open>Absent credentials\<close>














subsection \<open>The temporary file\<close>

text \<open>
  Whenever the recognition step of \<open>transcribe_mp3\<close> ends in a \<open>return\<close> (the
  transcript, or the message of one of the two handlers of lines 153 to 156), the
  function returns that value and the temporary file stays, with the exported audio.
\<close>

lemma files_mp3_dispatch: "files (snd (mp3_dispatch w api l a s)) = files s"
  by (simp add: mp3_dispatch_def Let_def)

lemma temp_file_kept_on_return:
  assumes "ffmpeg_version w = None" and "from_mp3 w mp3 = Inr audio"
    and "named_temporary_file w = Inr p" and "export w audio p = Inr wav"
    and "audio_file_enter w p = None" and "record_audio w p = Inr a"
    and "fst (mp3_recognize w api l a (staged p wav s)) = Inr v"
  shows "fst (transcribe_mp3 w mp3 api l s) = Inr (Some v)"
    and "files (snd (transcribe_mp3 w mp3 api l s)) p = Some wav"
proof -
  obtain r s' where m: "mp3_recognize w api l a (staged p wav s) = (r, s')"
    by (cases "mp3_recognize w api l a (staged p wav s)")
  with assms(7) have r: "r = Inr v" by simp
  have "files s' = files (staged p wav s)"
    using snd_mp3_recognize [of w api l a "staged p wav s"] m
    by (simp add: files_mp3_dispatch)
  then have f: "files s' p = Some wav" by simp
  show "fst (transcribe_mp3 w mp3 api l s) = Inr (Some v)"
    by (simp add: transcribe_mp3_staged [OF assms(1-6)] m r)
  show "files (snd (transcribe_mp3 w mp3 api l s)) p = Some wav"
    by (simp add: transcribe_mp3_staged [OF assms(1-6)] m r f)
qed

text \<open>
  Claim C1 (the temporary file is deleted on every exit path) fails on the code. On the
  host \<open>demo_world\<close>, where every step succeeds and google returns a transcript,
  \<open>transcribe_mp3\<close> returns that transcript while the temporary file is still there
  with the exported audio in it, and \<open>os.unlink\<close> is not among the external calls: the
  \<open>return text\<close> of line 152 leaves the function before lines 158 to 162. The same
  holds when google cannot understand the audio and the handler of line 154 returns.
\<close>

theorem temp_file_left_after_return:
  "fst (transcribe_mp3 demo_world ''ID3'' ''google'' ''en-US'' empty_sys) = Inr (Some ''hello world'') \<and>
   files (snd (transcribe_mp3 demo_world ''ID3'' ''google'' ''en-US'' empty_sys))
     ''/tmp/tmpk3v9xq.wav'' = Some ''RIFF'' \<and>
   calls (snd (transcribe_mp3 demo_world ''ID3'' ''google'' ''en-US'' empty_sys)) =
     [Ffmpeg_version, From_mp3, Named_temporary_file, Export ''/tmp/tmpk3v9xq.wav'',
      Audio_file_enter ''/tmp/tmpk3v9xq.wav'', Record_audio ''/tmp/tmpk3v9xq.wav'',
      Recognize_google ''en-US''] \<and>
   fst (transcribe_mp3 (demo_world\<lparr>recognize_google := (\<lambda>a l. Inl (UnknownValueError []))\<rparr>)
     ''ID3'' ''google'' ''en-US'' empty_sys) =
     Inr (Some ''Sorry, I did not understand what you said.'') \<and>
   files (snd (transcribe_mp3 (demo_world\<lparr>recognize_google := (\<lambda>a l. Inl (UnknownValueError []))\<rparr>)
     ''ID3'' ''google'' ''en-US'' empty_sys)) ''/tmp/tmpk3v9xq.wav'' = Some ''RIFF''"
proof -
  let ?ko = "demo_world\<lparr>recognize_google := (\<lambda>a l. Inl (UnknownValueError []))\<rparr>"
  have ok: "fst (transcribe_mp3 demo_world ''ID3'' ''google'' ''en-US'' empty_sys) = Inr (Some ''hello world'') \<and>
   files (snd (transcribe_mp3 demo_world ''ID3'' ''google'' ''en-US'' empty_sys))
     ''/tmp/tmpk3v9xq.wav'' = Some ''RIFF'' \<and>
   calls (snd (transcribe_mp3 demo_world ''ID3'' ''google'' ''en-US'' empty_sys)) =
     [Ffmpeg_version, From_mp3, Named_temporary_file, Export ''/tmp/tmpk3v9xq.wav'',
      Audio_file_enter ''/tmp/tmpk3v9xq.wav'', Record_audio ''/tmp/tmpk3v9xq.wav'',
      Recognize_google ''en-US'']"
    by (simp add: demo_mp3 mp3_recognize_def mp3_dispatch_google, simp add: demo_world_def empty_sys_def)
  have r: "fst (mp3_recognize ?ko ''google'' ''en-US'' ''pcm''
      (staged ''/tmp/tmpk3v9xq.wav'' ''RIFF'' empty_sys)) =
      Inr ''Sorry, I did not understand what you said.''"
    by (simp add: mp3_recognize_def mp3_dispatch_google demo_world_def)
  have ko: "fst (transcribe_mp3 ?ko ''ID3'' ''google'' ''en-US'' empty_sys) =
      Inr (Some ''Sorry, I did not understand what you said.'')"
    by (rule temp_file_kept_on_return(1) [where audio = "''pcm''" and p = "''/tmp/tmpk3v9xq.wav''"
          and wav = "''RIFF''" and a = "''pcm''"])
       (simp_all add: r, simp_all add: demo_world_def)
  have ko': "files (snd (transcribe_mp3 ?ko ''ID3'' ''google'' ''en-US'' empty_sys))
      ''/tmp/tmpk3v9xq.wav'' = Some ''RIFF''"
    by (rule temp_file_kept_on_return(2) [where audio = "''pcm''" and a = "''pcm''"
          and v = "''Sorry, I did not understand what you said.''"])
       (simp_all add: r, simp_all add: demo_world_def)
  from ok ko ko' show ?thesis by simp
qed

end
